theory Spec2Isabelle
  imports Main "HOL-Library.Multiset" "HOL-Library.Product_Lexorder" "HOL-Library.Sublist"
begin

section \<open>Data model (mm/db.py, mm/app.py)\<close>

text \<open>
  A \<open>datetime\<close> is a count of microseconds (the resolution of Python's datetime and of the
  stored text). The clock readings (SQLite's \<open>NOW\<close>, Python's \<open>datetime.utcnow()\<close>) and
  the random draws are inputs of the operations that use them.
\<close>

type_synonym datetime = int

datatype JobStatus = PENDING | RUNNING | DONE | CANCELED

datatype error =
    BadPriorStatusError
  | NoResultFound
  | MultipleResultsFound
  | InvalidRequestError
  | AssertionError

text \<open>A row of \<open>app_jobs\<close>; \<open>message\<close> is the only nullable column.\<close>

record DbJob =
  job_id :: int
  created_at :: datetime
  next_attempt_at :: datetime
  status :: JobStatus
  status_at :: datetime
  message :: "string option"

text \<open>A row of \<open>app_job_histories\<close> (the field names carry the prefix \<open>h_\<close>, the
  columns are \<open>job_id\<close>, \<open>status\<close>, \<open>status_at\<close>, \<open>message\<close>).\<close>

record DbJobHistory =
  job_history_id :: int
  h_job_id :: int
  h_status :: JobStatus
  h_status_at :: datetime
  h_message :: "string option"

text \<open>The store: both tables, rows in insertion order.\<close>

record Session =
  app_jobs :: "DbJob list"
  app_job_histories :: "DbJobHistory list"

text \<open>An \<open>INTEGER PRIMARY KEY\<close> left out of an insert gets one more than the largest
  key in the table, and 1 in an empty table.\<close>

definition next_rowid :: "int list \<Rightarrow> int" where
  "next_rowid ids = (case ids of [] \<Rightarrow> 1 | x # xs \<Rightarrow> fold max xs x + 1)"


section \<open>Transition engine (mm/db.py)\<close>

text \<open>The \<open>if\<close>/\<open>elif\<close> chain of \<open>_update_job_status\<close>.\<close>

definition prior_status :: "JobStatus \<Rightarrow> JobStatus" where
  "prior_status st =
     (if st = PENDING then RUNNING
      else if st = RUNNING then PENDING
      else if st = DONE then RUNNING
      else PENDING)"

text \<open>
  The trigger \<open>append_job_history\<close>, fired after the update of \<open>status\<close> for each updated
  row: \<open>status_at\<close> of the rows with the new row's \<open>job_id\<close> becomes \<open>NOW\<close>, and the old
  row's \<open>job_id\<close>, \<open>status\<close>, \<open>status_at\<close> and \<open>message\<close> are inserted into the history table.
\<close>

definition old_values :: "Session \<Rightarrow> DbJob \<Rightarrow> DbJobHistory" where
  "old_values db old =
     \<lparr>job_history_id = next_rowid (map job_history_id (app_job_histories db)),
      h_job_id = job_id old,
      h_status = status old,
      h_status_at = status_at old,
      h_message = message old\<rparr>"

definition append_job_history :: "datetime \<Rightarrow> DbJob \<Rightarrow> Session \<Rightarrow> Session" where
  "append_job_history now old db =
     db\<lparr>app_jobs :=
          map (\<lambda>r. if job_id r = job_id old then r\<lparr>status_at := now\<rparr> else r) (app_jobs db),
        app_job_histories := app_job_histories db @ [old_values db old]\<rparr>"

text \<open>
  The statement \<open>UPDATE app_jobs SET status = st WHERE job_id = jid AND status = prior\<close>:
  the number of rows matched, and the store after the update and its trigger.
\<close>

definition update_status_where :: "datetime \<Rightarrow> int \<Rightarrow> JobStatus \<Rightarrow> JobStatus \<Rightarrow> Session \<Rightarrow> nat \<times> Session" where
  "update_status_where now jid prior st db =
     (let matched = filter (\<lambda>r. job_id r = jid \<and> status r = prior) (app_jobs db);
          db1 = db\<lparr>app_jobs :=
                    map (\<lambda>r. if job_id r = jid \<and> status r = prior then r\<lparr>status := st\<rparr> else r)
                      (app_jobs db)\<rparr>
      in (length matched, fold (append_job_history now) matched db1))"

text \<open>Python's \<open>message if message else ""\<close>: \<open>None\<close> and the empty string give the empty string.\<close>

definition message_or_empty :: "string option \<Rightarrow> string" where
  "message_or_empty m = (case m of None \<Rightarrow> [] | Some s \<Rightarrow> (if s = [] then [] else s))"

text \<open>The unit of work's write of the attributes set on the object: \<open>message\<close> always,
  \<open>next_attempt_at\<close> only when one was given.\<close>

definition flush_attributes :: "int \<Rightarrow> string \<Rightarrow> datetime option \<Rightarrow> Session \<Rightarrow> Session" where
  "flush_attributes jid msg nxt db =
     db\<lparr>app_jobs :=
          map (\<lambda>r. if job_id r = jid
                    then (case nxt of
                            None \<Rightarrow> r\<lparr>message := Some msg\<rparr>
                          | Some t \<Rightarrow> r\<lparr>message := Some msg, next_attempt_at := t\<rparr>)
                    else r)
            (app_jobs db)\<rparr>"

text \<open>\<open>db.refresh(db_job)\<close> reloads the object from its row, and raises when it finds no
  such row.\<close>

definition refresh :: "Session \<Rightarrow> DbJob \<Rightarrow> error + DbJob" where
  "refresh db db_job =
     (case filter (\<lambda>r. job_id r = job_id db_job) (app_jobs db) of
        [r] \<Rightarrow> Inr r
      | _ \<Rightarrow> Inl InvalidRequestError)"

text \<open>
  \<open>_update_job_status\<close>. The result pairs what the call returns or raises with the store it
  leaves; the attribute writes reach the store with the caller's commit, in the same
  transaction as the update.
\<close>

definition update_job_status' :: "datetime \<Rightarrow> DbJob \<Rightarrow> JobStatus \<Rightarrow> datetime option \<Rightarrow> string option \<Rightarrow> Session \<Rightarrow> (error + unit) \<times> Session" where
  "update_job_status' now db_job st nxt msg db =
     (let m = message_or_empty msg;
          (rowcount, db1) = update_status_where now (job_id db_job) (prior_status st) st db
      in if rowcount < 1 then
           (case refresh db1 db_job of
              Inl e \<Rightarrow> (Inl e, db1)
            | Inr r \<Rightarrow> (Inl BadPriorStatusError, db1))
         else (Inr (), flush_attributes (job_id db_job) m nxt db1))"

text \<open>\<open>db_update_job_status\<close>: on \<open>BadPriorStatusError\<close> roll back and raise it again,
  otherwise commit and refresh; the refreshed object is the result.\<close>

definition db_update_job_status :: "datetime \<Rightarrow> DbJob \<Rightarrow> JobStatus \<Rightarrow> datetime option \<Rightarrow> string option \<Rightarrow> Session \<Rightarrow> (error + DbJob) \<times> Session" where
  "db_update_job_status now db_job st nxt msg db =
     (let m = message_or_empty msg
      in case update_job_status' now db_job st nxt (Some m) db of
           (Inl e, db1) \<Rightarrow> (if e = BadPriorStatusError then (Inl e, db) else (Inl e, db1))
         | (Inr u, db1) \<Rightarrow>
             (case refresh db1 db_job of
                Inl e \<Rightarrow> (Inl e, db1)
              | Inr r \<Rightarrow> (Inr r, db1)))"

section \<open>Job store and query layer (mm/db.py)\<close>

text \<open>
  \<open>db_insert_job\<close>: \<open>status\<close>, \<open>created_at\<close> and \<open>status_at\<close> take their server defaults
  (\<open>PENDING\<close> and \<open>NOW\<close>), \<open>next_attempt_at\<close> is the given value or \<open>NOW\<close>, \<open>message\<close>
  is stored as given (NULL when none is). The refreshed row is returned.
\<close>

definition db_insert_job :: "datetime \<Rightarrow> datetime option \<Rightarrow> string option \<Rightarrow> Session \<Rightarrow> DbJob \<times> Session" where
  "db_insert_job now nxt msg db =
     (let db_job = \<lparr>job_id = next_rowid (map job_id (app_jobs db)),
                     created_at = now,
                     next_attempt_at = (case nxt of None \<Rightarrow> now | Some t \<Rightarrow> t),
                     status = PENDING,
                     status_at = now,
                     message = msg\<rparr>
      in (db_job, db\<lparr>app_jobs := app_jobs db @ [db_job]\<rparr>))"

definition db_select_in_flight_counts :: "Session \<Rightarrow> nat \<times> nat" where
  "db_select_in_flight_counts db =
     (length (filter (\<lambda>r. status r = PENDING) (app_jobs db)),
      length (filter (\<lambda>r. status r = RUNNING) (app_jobs db)))"

text \<open>\<open>scalar_one()\<close> raises unless exactly one row was selected.\<close>

definition db_select_job :: "Session \<Rightarrow> int \<Rightarrow> error + DbJob" where
  "db_select_job db jid =
     (case filter (\<lambda>r. job_id r = jid) (app_jobs db) of
        [] \<Rightarrow> Inl NoResultFound
      | [r] \<Rightarrow> Inr r
      | _ \<Rightarrow> Inl MultipleResultsFound)"

text \<open>\<open>ORDER BY k DESC\<close>, and \<open>OFFSET\<close>/\<open>LIMIT\<close> as SQLite reads them: a negative offset
  is 0 and a negative limit is no limit.\<close>

definition order_by_desc :: "('a \<Rightarrow> 'k::linorder) \<Rightarrow> 'a list \<Rightarrow> 'a list" where
  "order_by_desc k xs = rev (sort_key k xs)"

definition offset_limit :: "int \<Rightarrow> int \<Rightarrow> 'a list \<Rightarrow> 'a list" where
  "offset_limit skip limit xs =
     (let ys = drop (nat skip) xs in if limit < 0 then ys else take (nat limit) ys)"


definition db_select_jobs :: "Session \<Rightarrow> JobStatus option \<Rightarrow> int \<Rightarrow> int \<Rightarrow> DbJob list" where
  "db_select_jobs db st skip limit =
     offset_limit skip limit
       (order_by_desc (\<lambda>r. (created_at r, job_id r))
          (case st of
             None \<Rightarrow> app_jobs db
           | Some s \<Rightarrow> filter (\<lambda>r. status r = s) (app_jobs db)))"

section \<open>Lifecycle simulator (mm/db.py)\<close>

text \<open>What one job's turn draws: the two \<open>uniform\<close> time spans (already as microseconds),
  the \<open>randrange(0, 10, 1)\<close> bucket, and the database clock at its update.\<close>

record job_draw =
  start_latency :: int
  run_time :: int
  d10 :: nat
  sql_now :: datetime

datatype log_entry =
    UnexpectedJobStatus JobStatus int
  | UnableToUpdateStatus JobStatus int

text \<open>The targets the loop body computes from the object it holds:
  \<open>(target_status, target_status_at, target_next_attempt_at, target_message)\<close>;
  \<open>None\<close> is the \<open>else\<close> branch (warn and continue).\<close>

definition fake_target :: "job_draw \<Rightarrow> DbJob \<Rightarrow> (JobStatus \<times> datetime \<times> datetime option \<times> string option) option" where
  "fake_target orc db_job =
     (if status db_job = PENDING then
        Some (RUNNING, next_attempt_at db_job + start_latency orc, None, None)
      else if status db_job = RUNNING then
        (let target_status_at = status_at db_job + run_time orc
         in if d10 orc = 0 then
              Some (DONE, target_status_at, None, Some ''Permanent failure'')
            else if d10 orc = 1 \<or> d10 orc = 2 \<or> d10 orc = 3 then
              Some (PENDING, target_status_at, Some (target_status_at + 10000000),
                    Some ''Temporary failure'')
            else
              Some (DONE, target_status_at, None, None))
      else None)"

definition set_status_at :: "int \<Rightarrow> datetime \<Rightarrow> Session \<Rightarrow> Session" where
  "set_status_at jid t db =
     db\<lparr>app_jobs := map (\<lambda>r. if job_id r = jid then r\<lparr>status_at := t\<rparr> else r) (app_jobs db)\<rparr>"

text \<open>
  One turn of the \<open>for\<close> loop, on the object \<open>db_job\<close> the loop holds and the store as it
  is then; the warnings logged are collected. Only \<open>BadPriorStatusError\<close> is caught.
  After the update the loop overwrites \<open>status_at\<close> with its target, refreshes and asserts.
\<close>

definition advance_job :: "job_draw \<Rightarrow> DbJob \<Rightarrow> Session \<times> log_entry list \<Rightarrow> (error + unit) \<times> Session \<times> log_entry list" where
  "advance_job orc db_job s =
     (case s of (db, logged) \<Rightarrow>
        (case fake_target orc db_job of
           None \<Rightarrow> (Inr (), db, logged @ [UnexpectedJobStatus (status db_job) (job_id db_job)])
         | Some (target_status, target_status_at, target_next_attempt_at, target_message) \<Rightarrow>
             (case update_job_status' (sql_now orc) db_job target_status
                     target_next_attempt_at target_message db of
                (Inl e, db1) \<Rightarrow>
                  (if e = BadPriorStatusError
                   then (Inr (), db1, logged @ [UnableToUpdateStatus target_status (job_id db_job)])
                   else (Inl e, db1, logged))
              | (Inr u, db1) \<Rightarrow>
                  (let db2 = set_status_at (job_id db_job) target_status_at db1
                   in case refresh db2 db_job of
                        Inl e \<Rightarrow> (Inl e, db2, logged)
                      | Inr r \<Rightarrow>
                          (if status_at r = target_status_at then (Inr (), db2, logged)
                           else (Inl AssertionError, db2, logged))))))"

text \<open>The \<open>for\<close> loop over the selected objects; \<open>draw\<close> gives each job's draws. An
  exception that is not caught ends the loop.\<close>

fun advance_jobs :: "(int \<Rightarrow> job_draw) \<Rightarrow> DbJob list \<Rightarrow> Session \<times> log_entry list \<Rightarrow> (error + unit) \<times> Session \<times> log_entry list" where
  "advance_jobs draw [] s = (Inr (), s)"
| "advance_jobs draw (db_job # db_jobs) s =
     (case advance_job (draw (job_id db_job)) db_job s of
        (Inl e, s1) \<Rightarrow> (Inl e, s1)
      | (Inr u, s1) \<Rightarrow> advance_jobs draw db_jobs s1)"

definition ready :: "datetime \<Rightarrow> DbJob \<Rightarrow> bool" where
  "ready now r \<longleftrightarrow>
     (status r = PENDING \<and> next_attempt_at r < now - 2000000) \<or>
     (status r = RUNNING \<and> status_at r < now - 10000000)"

text \<open>The clock and the draws of a whole run, by the number of the scan.\<close>

record env =
  utcnow :: "nat \<Rightarrow> datetime"
  draws :: "nat \<Rightarrow> int \<Rightarrow> job_draw"

text \<open>\<open>db_fake_advance_jobs\<close>: the \<open>while True\<close> loop, with fuel for the number of scans;
  \<open>None\<close> when the fuel runs out before a scan comes back empty.\<close>

fun db_fake_advance_jobs :: "nat \<Rightarrow> env \<Rightarrow> nat \<Rightarrow> Session \<times> log_entry list \<Rightarrow> ((error + unit) \<times> Session \<times> log_entry list) option" where
  "db_fake_advance_jobs 0 e i s = None"
| "db_fake_advance_jobs (Suc fuel) e i s =
     (let now = utcnow e i;
          db_jobs = filter (ready now) (app_jobs (fst s))
      in if db_jobs = [] then Some (Inr (), s)
         else (case advance_jobs (draws e i) db_jobs s of
                 (Inl err, s1) \<Rightarrow> Some (Inl err, s1)
               | (Inr u, s1) \<Rightarrow> db_fake_advance_jobs fuel e (Suc i) s1))"

section \<open>Request layer (mm/app.py)\<close>

text \<open>The response models \<open>Job\<close> and \<open>JobPriorStatus\<close>.\<close>

record Job =
  j_job_id :: int
  j_created_at :: datetime
  j_next_attempt_at :: "datetime option"
  j_status :: JobStatus
  j_status_at :: datetime
  j_message :: string


datatype http_error =
    HTTP_404_NOT_FOUND int
  | HTTP_409_CONFLICT Job
  | HTTP_422_UNPROCESSABLE_ENTITY
  | HTTP_500_INTERNAL_SERVER_ERROR error

text \<open>The root validators \<open>JobBase.ensure_message\<close> (before the fields are read) and
  \<open>Job.blank_next_attempt_at\<close> (after).\<close>

definition ensure_message :: "string option \<Rightarrow> string" where
  "ensure_message m = (case m of None \<Rightarrow> [] | Some s \<Rightarrow> (if s = [] then [] else s))"

definition blank_next_attempt_at :: "Job \<Rightarrow> Job" where
  "blank_next_attempt_at values =
     (if j_status values \<noteq> PENDING then values\<lparr>j_next_attempt_at := None\<rparr> else values)"

definition Job_from_orm :: "DbJob \<Rightarrow> Job" where
  "Job_from_orm r =
     blank_next_attempt_at
       \<lparr>j_job_id = job_id r,
        j_created_at = created_at r,
        j_next_attempt_at = Some (next_attempt_at r),
        j_status = status r,
        j_status_at = status_at r,
        j_message = ensure_message (message r)\<rparr>"



text \<open>The handlers, as the bodies the decorator wraps. \<open>Query(0, ge=0)\<close> and
  \<open>Query(100, ge=1, le=100)\<close> reject a request before the handler runs.\<close>

definition summary :: "Session \<Rightarrow> nat \<times> nat" where
  "summary db = db_select_in_flight_counts db"

definition job :: "int \<Rightarrow> Session \<Rightarrow> http_error + Job" where
  "job jid db =
     (case db_select_job db jid of
        Inl e \<Rightarrow> (if e = NoResultFound then Inl (HTTP_404_NOT_FOUND jid)
                  else Inl (HTTP_500_INTERNAL_SERVER_ERROR e))
      | Inr db_job \<Rightarrow> Inr (Job_from_orm db_job))"


definition cancel_job :: "datetime \<Rightarrow> int \<Rightarrow> datetime option \<Rightarrow> string option \<Rightarrow> Session \<Rightarrow> (http_error + Job) \<times> Session" where
  "cancel_job now jid nxt msg db =
     (case db_select_job db jid of
        Inl e \<Rightarrow> (if e = NoResultFound then (Inl (HTTP_404_NOT_FOUND jid), db)
                  else (Inl (HTTP_500_INTERNAL_SERVER_ERROR e), db))
      | Inr db_job \<Rightarrow>
          (case db_update_job_status now db_job CANCELED nxt msg db of
             (Inl e, db1) \<Rightarrow>
               (if e = BadPriorStatusError then
                  (case refresh db1 db_job of
                     Inl e' \<Rightarrow> (Inl (HTTP_500_INTERNAL_SERVER_ERROR e'), db1)
                   | Inr cur \<Rightarrow> (Inl (HTTP_409_CONFLICT (Job_from_orm cur)), db1))
                else if e = NoResultFound then (Inl (HTTP_404_NOT_FOUND jid), db1)
                else (Inl (HTTP_500_INTERNAL_SERVER_ERROR e), db1))
           | (Inr cur, db1) \<Rightarrow> (Inr (Job_from_orm cur), db1)))"

definition new_job :: "datetime \<Rightarrow> datetime option \<Rightarrow> string option \<Rightarrow> Session \<Rightarrow> Job \<times> Session" where
  "new_job now nxt msg db =
     (case db_insert_job now nxt msg db of (db_job, db1) \<Rightarrow> (Job_from_orm db_job, db1))"

definition jobs :: "JobStatus option \<Rightarrow> int \<Rightarrow> int \<Rightarrow> Session \<Rightarrow> http_error + Job list" where
  "jobs st skip limit db =
     (if \<not> (0 \<le> skip \<and> 1 \<le> limit \<and> limit \<le> 100) then Inl HTTP_422_UNPROCESSABLE_ENTITY
      else Inr (map Job_from_orm (db_select_jobs db st skip limit)))"

section \<open>Stores used as examples\<close>

definition example_pending :: DbJob where
  "example_pending =
     \<lparr>job_id = 1, created_at = 0, next_attempt_at = 5000000, status = PENDING,
      status_at = 0, message = None\<rparr>"

definition example_running :: DbJob where
  "example_running =
     \<lparr>job_id = 2, created_at = 0, next_attempt_at = 3000000, status = RUNNING,
      status_at = 4000000, message = Some ''started''\<rparr>"

definition example_store :: Session where
  "example_store =
     \<lparr>app_jobs = [example_pending, example_running],
      app_job_histories =
        [\<lparr>job_history_id = 1, h_job_id = 2, h_status = PENDING, h_status_at = 0,
          h_message = None\<rparr>]\<rparr>"



definition example_draw :: job_draw where
  "example_draw = \<lparr>start_latency = 1000000, run_time = 6000000, d10 = 2, sql_now = 20000000\<rparr>"

text \<open>Job 2 as an object loaded while it was still pending, before another actor started it.\<close>

definition example_stale :: DbJob where
  "example_stale = example_running\<lparr>status := PENDING, status_at := 0, message := None\<rparr>"



section \<open>The row a transition leaves\<close>

text \<open>The net effect of a successful transition on the job's row: the update, its trigger
  and the attribute writes together.\<close>

definition transition_row :: "datetime \<Rightarrow> JobStatus \<Rightarrow> datetime option \<Rightarrow> string option \<Rightarrow> DbJob \<Rightarrow> DbJob" where
  "transition_row now st nxt msg r =
     r\<lparr>status := st, status_at := now, message := Some (message_or_empty msg),
       next_attempt_at := (case nxt of None \<Rightarrow> next_attempt_at r | Some t \<Rightarrow> t)\<rparr>"

section \<open>A measure for the simulator's loop\<close>



section \<open>Rows selected by key\<close>

lemma filter_single_conj:
  "filter P xs = [x] \<Longrightarrow> filter (\<lambda>r. P r \<and> Q r) xs = (if Q x then [x] else [])"
  by (induction xs) (auto split: if_splits simp: filter_empty_conv)

lemma filter_single_unique:
  "filter P xs = [x] \<Longrightarrow> r \<in> set xs \<Longrightarrow> P r \<Longrightarrow> r = x"
  by (induction xs) (auto split: if_splits simp: filter_empty_conv)

lemma filter_single_holds: "filter P xs = [x] \<Longrightarrow> P x \<and> x \<in> set xs"
  by (induction xs) (auto split: if_splits)

lemma map_if_no_match:
  "filter P xs = [] \<Longrightarrow> map (\<lambda>r. if P r then f r else r) xs = xs"
  by (induction xs) (auto split: if_splits)

lemma filter_single_map_id:
  "filter P xs = [x] \<Longrightarrow> (\<And>r. P (f r) = P r) \<Longrightarrow>
   filter P (map (\<lambda>r. if P r then f r else r) xs) = [f x]"
  by (induction xs) (auto split: if_splits simp: filter_empty_conv)

lemma select_job_Inr:
  "db_select_job db jid = Inr r \<longleftrightarrow> filter (\<lambda>x. job_id x = jid) (app_jobs db) = [r]"
  by (auto simp: db_select_job_def split: list.splits)

lemma refresh_Inr:
  "refresh db j = Inr r \<longleftrightarrow> filter (\<lambda>x. job_id x = job_id j) (app_jobs db) = [r]"
  by (auto simp: refresh_def split: list.splits)

lemma job_id_transition_row [simp]: "job_id (transition_row now st nxt msg r) = job_id r"
  by (simp add: transition_row_def)

section \<open>The transition engine\<close>


lemma update_status_where_none:
  "filter (\<lambda>r. job_id r = jid \<and> status r = prior) (app_jobs db) = [] \<Longrightarrow>
   update_status_where now jid prior st db = (0, db)"
  by (simp add: update_status_where_def map_if_no_match)



lemma update_fail:
  assumes "db_select_job db (job_id j) = Inr r" "status r \<noteq> prior_status st"
  shows "update_job_status' now j st nxt msg db = (Inl BadPriorStatusError, db)"
proof -
  from assms(1) have f: "filter (\<lambda>x. job_id x = job_id j) (app_jobs db) = [r]"
    by (simp add: select_job_Inr)
  from filter_single_conj[OF f, of "\<lambda>x. status x = prior_status st"] assms(2)
  have "filter (\<lambda>x. job_id x = job_id j \<and> status x = prior_status st) (app_jobs db) = []"
    by simp
  then have "update_status_where now (job_id j) (prior_status st) st db = (0, db)"
    by (rule update_status_where_none)
  moreover have "refresh db j = Inr r" using f by (simp add: refresh_Inr)
  ultimately show ?thesis by (simp add: update_job_status'_def)
qed

lemma update_ok:
  assumes sel: "db_select_job db (job_id j) = Inr old" and st: "status old = prior_status st"
  shows "update_job_status' now j st nxt msg db =
    (Inr (),
     db\<lparr>app_jobs :=
          map (\<lambda>r. if job_id r = job_id j then transition_row now st nxt msg r else r)
            (app_jobs db),
        app_job_histories := app_job_histories db @ [old_values db old]\<rparr>)"
proof -
  from sel have f: "filter (\<lambda>x. job_id x = job_id j) (app_jobs db) = [old]"
    by (simp add: select_job_Inr)
  from filter_single_conj[OF f, of "\<lambda>x. status x = prior_status st"] st
  have m: "filter (\<lambda>x. job_id x = job_id j \<and> status x = prior_status st) (app_jobs db) = [old]"
    by simp
  have old: "job_id old = job_id j" using filter_single_holds[OF f] by simp
  have u: "\<And>r. r \<in> set (app_jobs db) \<Longrightarrow> job_id r = job_id j \<Longrightarrow> status r = prior_status st"
    using filter_single_unique[OF f] st by blast
  have w: "update_status_where now (job_id j) (prior_status st) st db =
      (1, db\<lparr>app_jobs :=
               map (\<lambda>r. if job_id r = job_id j then r\<lparr>status := st, status_at := now\<rparr> else r)
                 (app_jobs db),
             app_job_histories := app_job_histories db @ [old_values db old]\<rparr>)"
    using u
    by (simp add: update_status_where_def m append_job_history_def old old_values_def o_def
             cong: map_cong)
  show ?thesis
    unfolding update_job_status'_def w
    by (cases nxt)
       (simp_all add: Let_def flush_attributes_def transition_row_def o_def if_distrib
                 cong: map_cong if_cong)
qed

lemma db_update_fail:
  assumes "db_select_job db (job_id j) = Inr r" "status r \<noteq> prior_status st"
  shows "db_update_job_status now j st nxt msg db = (Inl BadPriorStatusError, db)"
  by (simp add: db_update_job_status_def update_fail[OF assms])

lemma db_update_ok:
  assumes sel: "db_select_job db (job_id j) = Inr old" and st: "status old = prior_status st"
  shows "db_update_job_status now j st nxt msg db =
    (Inr (transition_row now st nxt msg old),
     db\<lparr>app_jobs :=
          map (\<lambda>r. if job_id r = job_id j then transition_row now st nxt msg r else r)
            (app_jobs db),
        app_job_histories := app_job_histories db @ [old_values db old]\<rparr>)"
proof -
  from sel have f: "filter (\<lambda>x. job_id x = job_id j) (app_jobs db) = [old]"
    by (simp add: select_job_Inr)
  have mm: "message_or_empty (Some (message_or_empty msg)) = message_or_empty msg"
    by (simp add: message_or_empty_def split: option.splits)
  have tr: "\<And>x. transition_row now st nxt (Some (message_or_empty msg)) x =
                 transition_row now st nxt msg x"
    by (simp add: transition_row_def mm)
  have r: "refresh
             (db\<lparr>app_jobs :=
                   map (\<lambda>r. if job_id r = job_id j then transition_row now st nxt msg r else r)
                     (app_jobs db),
                 app_job_histories := app_job_histories db @ [old_values db old]\<rparr>) j =
           Inr (transition_row now st nxt msg old)"
    using filter_single_map_id[OF f, of "transition_row now st nxt msg"]
    by (simp add: refresh_Inr)
  show ?thesis
    by (simp add: db_update_job_status_def Let_def update_ok[OF sel st] tr r cong: if_cong)
qed

lemma example_select_pending:
  "db_select_job example_store (job_id example_pending) = Inr example_pending"
  by (simp add: db_select_job_def example_store_def example_pending_def example_running_def)

lemma example_select_running:
  "db_select_job example_store (job_id example_running) = Inr example_running"
  by (simp add: db_select_job_def example_store_def example_pending_def example_running_def)



text \<open>
  C2. A transition whose required prior status is not the job's persisted status raises
  \<open>BadPriorStatusError\<close> and leaves the whole store as it was: the job's row (status,
  status_at, message, next_attempt_at) and the history table are unchanged.
\<close>

theorem bad_prior_status_no_write:
  assumes "db_select_job db (job_id j) = Inr r" and "status r \<noteq> prior_status st"
  shows "update_job_status' now j st nxt msg db = (Inl BadPriorStatusError, db) \<and>
         db_update_job_status now j st nxt msg db = (Inl BadPriorStatusError, db)"
  using update_fail[OF assms] db_update_fail[OF assms] by simp

theorem bad_prior_status_no_write_witness:
  "db_select_job example_store (job_id example_running) = Inr example_running \<and>
   status example_running \<noteq> prior_status CANCELED \<and>
   db_update_job_status 9000000 example_running CANCELED None (Some ''stop'') example_store =
     (Inl BadPriorStatusError, example_store)"
proof -
  have h1: "db_select_job example_store (job_id example_running) = Inr example_running"
    by (rule example_select_running)
  have h2: "status example_running \<noteq> prior_status CANCELED"
    by (simp add: example_running_def prior_status_def)
  show ?thesis
    using h1 h2 bad_prior_status_no_write[OF h1 h2, of 9000000 None "Some ''stop''"] by simp
qed

section \<open>The history table only grows\<close>

lemma histories_append_job_history:
  "app_job_histories (append_job_history now old db) = app_job_histories db @ [old_values db old]"
  by (simp add: append_job_history_def)

lemma prefix_fold_append_job_history:
  "prefix (app_job_histories db) (app_job_histories (fold (append_job_history now) ms db))"
proof (induction ms arbitrary: db)
  case Nil
  show ?case by simp
next
  case (Cons m ms)
  have "prefix (app_job_histories db) (app_job_histories (append_job_history now m db))"
    by (simp add: histories_append_job_history)
  also have "prefix \<dots> (app_job_histories (fold (append_job_history now) ms (append_job_history now m db)))"
    by (rule Cons.IH)
  finally show ?case by simp
qed

lemma prefix_update_status_where:
  "prefix (app_job_histories db) (app_job_histories (snd (update_status_where now jid prior st db)))"
  using prefix_fold_append_job_history[of "db\<lparr>app_jobs := xs\<rparr>" for xs]
  by (simp add: update_status_where_def Let_def)

lemma histories_flush_attributes [simp]:
  "app_job_histories (flush_attributes jid m nxt db) = app_job_histories db"
  by (simp add: flush_attributes_def)

lemma histories_set_status_at [simp]:
  "app_job_histories (set_status_at jid t db) = app_job_histories db"
  by (simp add: set_status_at_def)

lemma prefix_update_job_status':
  "prefix (app_job_histories db) (app_job_histories (snd (update_job_status' now j st nxt msg db)))"
  using prefix_update_status_where[of db now "job_id j" "prior_status st" st]
  by (auto simp: update_job_status'_def Let_def split: prod.splits sum.splits)

lemma prefix_db_update_job_status:
  "prefix (app_job_histories db) (app_job_histories (snd (db_update_job_status now j st nxt msg db)))"
  using prefix_update_job_status'[of db now j st nxt "Some (message_or_empty msg)"]
  by (auto simp: db_update_job_status_def Let_def split: prod.splits sum.splits)

lemma prefix_advance_job:
  "prefix (app_job_histories db) (app_job_histories (fst (snd (advance_job orc j (db, l)))))"
proof (cases "fake_target orc j")
  case None
  then show ?thesis by (simp add: advance_job_def)
next
  case (Some t)
  obtain ts tsa tn tm where t: "t = (ts, tsa, tn, tm)" by (cases t) auto
  show ?thesis
    using prefix_update_job_status'[of db "sql_now orc" j ts tn tm]
    by (auto simp: advance_job_def Some t Let_def split: prod.splits sum.splits)
qed

lemma prefix_advance_jobs:
  "prefix (app_job_histories (fst s)) (app_job_histories (fst (snd (advance_jobs draw js s))))"
proof (induction js arbitrary: s)
  case Nil
  show ?case by simp
next
  case (Cons j js)
  obtain db l where s: "s = (db, l)" by (cases s)
  obtain res s1 where a: "advance_job (draw (job_id j)) j s = (res, s1)" by (cases "advance_job (draw (job_id j)) j s")
  have p1: "prefix (app_job_histories (fst s)) (app_job_histories (fst s1))"
    using prefix_advance_job[of db "draw (job_id j)" j l] a s by simp
  show ?case
  proof (cases res)
    case (Inl e)
    then show ?thesis using p1 a by simp
  next
    case (Inr u)
    have "prefix (app_job_histories (fst s1)) (app_job_histories (fst (snd (advance_jobs draw js s1))))"
      by (rule Cons.IH)
    with p1 show ?thesis using a Inr by (auto intro: prefix_order.trans)
  qed
qed

lemma prefix_db_fake_advance_jobs:
  "db_fake_advance_jobs fuel e i s = Some (res, s') \<Longrightarrow>
   prefix (app_job_histories (fst s)) (app_job_histories (fst s'))"
proof (induction fuel arbitrary: i s)
  case 0
  then show ?case by simp
next
  case (Suc fuel)
  let ?js = "filter (ready (utcnow e i)) (app_jobs (fst s))"
  show ?case
  proof (cases "?js = []")
    case True
    with Suc.prems show ?thesis by (simp add: Let_def)
  next
    case False
    obtain r1 s1 where a: "advance_jobs (draws e i) ?js s = (r1, s1)"
      by (cases "advance_jobs (draws e i) ?js s")
    have p1: "prefix (app_job_histories (fst s)) (app_job_histories (fst s1))"
      using prefix_advance_jobs[of s "draws e i" ?js] a by simp
    show ?thesis
    proof (cases r1)
      case (Inl err)
      with Suc.prems False a have "s' = s1" by (simp add: Let_def)
      with p1 show ?thesis by simp
    next
      case (Inr u)
      with Suc.prems False a have "db_fake_advance_jobs fuel e (Suc i) s1 = Some (res, s')"
        by (simp add: Let_def)
      from Suc.IH[OF this] p1 show ?thesis by (auto intro: prefix_order.trans)
    qed
  qed
qed

lemma prefix_db_insert_job:
  "app_job_histories (snd (db_insert_job now nxt msg db)) = app_job_histories db"
  by (simp add: db_insert_job_def Let_def)

lemma prefix_cancel_job:
  "prefix (app_job_histories db) (app_job_histories (snd (cancel_job now jid nxt msg db)))"
proof (cases "db_select_job db jid")
  case (Inl e)
  then show ?thesis by (simp add: cancel_job_def)
next
  case (Inr j)
  show ?thesis
    using prefix_db_update_job_status[of db now j CANCELED nxt msg]
    by (auto simp: cancel_job_def Inr split: prod.splits sum.splits)
qed

lemma example_start:
  "db_update_job_status 9000000 example_pending RUNNING None None example_store =
     (Inr (transition_row 9000000 RUNNING None None example_pending),
      example_store\<lparr>app_jobs :=
          map (\<lambda>r. if job_id r = job_id example_pending
                    then transition_row 9000000 RUNNING None None r else r)
            (app_jobs example_store),
        app_job_histories :=
          app_job_histories example_store @ [old_values example_store example_pending]\<rparr>)"
  by (rule db_update_ok[OF example_select_pending]) (simp add: example_pending_def prior_status_def)

text \<open>
  C3. A successful transition of a job appends exactly one history row, whose status,
  status_at and message are those the job's row held before the transition. No operation
  updates or deletes a history row: after a transition (successful or not), a cancellation,
  an insertion of a job, a turn of the simulator's loop or a whole simulator run, the
  history table that was there is still the beginning of the history table.
\<close>

theorem history_appended_once:
  assumes "db_select_job db (job_id j) = Inr old"
    and "db_update_job_status now j st nxt msg db = (Inr r', db')"
  shows "app_job_histories db' =
           app_job_histories db @
           [\<lparr>job_history_id = next_rowid (map job_history_id (app_job_histories db)),
             h_job_id = job_id old, h_status = status old, h_status_at = status_at old,
             h_message = message old\<rparr>] \<and>
         length (app_job_histories db') = length (app_job_histories db) + 1 \<and>
         snd (update_job_status' now j st nxt msg db) = db' \<and>
         prefix (app_job_histories s)
           (app_job_histories (snd (update_job_status' t1 j1 st1 nxt1 msg1 s))) \<and>
         prefix (app_job_histories s)
           (app_job_histories (snd (db_update_job_status t1 j1 st1 nxt1 msg1 s))) \<and>
         prefix (app_job_histories s)
           (app_job_histories (snd (cancel_job t1 jid1 nxt1 msg1 s))) \<and>
         app_job_histories (snd (db_insert_job t1 nxt1 msg1 s)) = app_job_histories s \<and>
         app_job_histories (snd (new_job t1 nxt1 msg1 s)) = app_job_histories s \<and>
         prefix (app_job_histories s)
           (app_job_histories (fst (snd (advance_jobs draw js (s, logged))))) \<and>
         (db_fake_advance_jobs fuel e i (s, logged) = Some (res, s', logged') \<longrightarrow>
            prefix (app_job_histories s) (app_job_histories s'))"
proof -
  have ok: "status old = prior_status st"
  proof (rule ccontr)
    assume "status old \<noteq> prior_status st"
    from db_update_fail[OF assms(1) this, of now nxt msg] assms(2) show False by simp
  qed
  have a: "app_job_histories db' = app_job_histories db @ [old_values db old]"
    using db_update_ok[OF assms(1) ok, of now nxt msg] assms(2) by auto
  have mm: "message_or_empty (Some (message_or_empty msg)) = message_or_empty msg"
    by (simp add: message_or_empty_def split: option.splits)
  have b: "snd (update_job_status' now j st nxt msg db) = db'"
    using db_update_ok[OF assms(1) ok, of now nxt msg] update_ok[OF assms(1) ok, of now nxt msg] assms(2)
    by simp
  have c: "app_job_histories (snd (new_job t1 nxt1 msg1 s)) = app_job_histories s"
    by (simp add: new_job_def db_insert_job_def Let_def)
  have d: "db_fake_advance_jobs fuel e i (s, logged) = Some (res, s', logged') \<longrightarrow>
            prefix (app_job_histories s) (app_job_histories s')"
    using prefix_db_fake_advance_jobs[of fuel e i "(s, logged)" res "(s', logged')"] by simp
  show ?thesis
    using a b c d prefix_update_job_status'[of s t1 j1 st1 nxt1 msg1]
      prefix_db_update_job_status[of s t1 j1 st1 nxt1 msg1]
      prefix_cancel_job[of s t1 jid1 nxt1 msg1]
      prefix_db_insert_job[of t1 nxt1 msg1 s]
      prefix_advance_jobs[of "(s, logged)" draw js]
    by (simp add: old_values_def)
qed

theorem history_appended_once_witness:
  "db_select_job example_store (job_id example_pending) = Inr example_pending \<and>
   app_job_histories
     (snd (db_update_job_status 9000000 example_pending RUNNING None None example_store)) =
   app_job_histories example_store @
     [\<lparr>job_history_id = 2, h_job_id = 1, h_status = PENDING, h_status_at = 0, h_message = None\<rparr>]"
proof -
  have h: "app_job_histories
      (snd (db_update_job_status 9000000 example_pending RUNNING None None example_store)) =
    app_job_histories example_store @
     [\<lparr>job_history_id = next_rowid (map job_history_id (app_job_histories example_store)),
       h_job_id = job_id example_pending, h_status = status example_pending,
       h_status_at = status_at example_pending, h_message = message example_pending\<rparr>]"
    unfolding example_start snd_conv
    by (rule conjunct1[OF history_appended_once[OF example_select_pending example_start]])
  have e: "next_rowid (map job_history_id (app_job_histories example_store)) = 2"
    by (simp add: example_store_def next_rowid_def)
  have p: "job_id example_pending = 1" "status example_pending = PENDING"
    "status_at example_pending = 0" "message example_pending = None"
    by (simp_all add: example_pending_def)
  show ?thesis using example_select_pending h by (simp only: e p simp_thms)
qed




section \<open>What callers see, and creation\<close>

lemma Job_from_orm_status [simp]: "j_status (Job_from_orm r) = status r"
  by (simp add: Job_from_orm_def blank_next_attempt_at_def)

lemma Job_from_orm_next:
  "j_next_attempt_at (Job_from_orm r) = (if status r = PENDING then Some (next_attempt_at r) else None)"
  by (simp add: Job_from_orm_def blank_next_attempt_at_def)

lemma Job_from_orm_blank:
  "j_status (Job_from_orm r) \<noteq> PENDING \<Longrightarrow> j_next_attempt_at (Job_from_orm r) = None"
  by (simp add: Job_from_orm_next)

lemma job_from_orm: "job jid db = Inr v \<Longrightarrow> \<exists>r. v = Job_from_orm r"
  by (auto simp: job_def split: sum.splits if_splits)

lemma cancel_job_from_orm:
  "fst (cancel_job now jid nxt msg db) = Inr v \<or>
   fst (cancel_job now jid nxt msg db) = Inl (HTTP_409_CONFLICT v) \<Longrightarrow> \<exists>r. v = Job_from_orm r"
  by (auto simp: cancel_job_def split: sum.splits if_splits prod.splits)

text \<open>
  C5. In every \<open>Job\<close> handed to a caller, \<open>next_attempt_at\<close> is present only when the
  status is \<open>PENDING\<close>, whatever the row stores: \<open>Job.from_orm\<close> keeps the row's status and
  blanks the field otherwise, and the handlers \<open>job\<close>, \<open>jobs\<close>, \<open>new_job\<close> and \<open>cancel_job\<close>
  (its result and the job in its conflict response) return nothing else. The handlers are
  taken on any store, so also on the one the simulator leaves them.
\<close>

theorem next_attempt_at_shown_only_when_pending:
  "(j_next_attempt_at (Job_from_orm r) \<noteq> None \<longrightarrow> j_status (Job_from_orm r) = PENDING) \<and>
   j_status (Job_from_orm r) = status r \<and>
   (job jid db = Inr v \<longrightarrow> j_next_attempt_at v \<noteq> None \<longrightarrow> j_status v = PENDING) \<and>
   (jobs st skip limit db = Inr vs \<longrightarrow>
      (\<forall>v \<in> set vs. j_next_attempt_at v \<noteq> None \<longrightarrow> j_status v = PENDING)) \<and>
   (j_next_attempt_at (fst (new_job now nxt msg db)) \<noteq> None \<longrightarrow>
      j_status (fst (new_job now nxt msg db)) = PENDING) \<and>
   (fst (cancel_job now jid nxt msg db) = Inr v \<longrightarrow>
      j_next_attempt_at v \<noteq> None \<longrightarrow> j_status v = PENDING) \<and>
   (fst (cancel_job now jid nxt msg db) = Inl (HTTP_409_CONFLICT v) \<longrightarrow>
      j_next_attempt_at v \<noteq> None \<longrightarrow> j_status v = PENDING)"
proof -
  have a: "j_next_attempt_at (Job_from_orm x) \<noteq> None \<longrightarrow> j_status (Job_from_orm x) = PENDING" for x
    by (simp add: Job_from_orm_next)
  have j: "job jid db = Inr v \<longrightarrow> j_next_attempt_at v \<noteq> None \<longrightarrow> j_status v = PENDING"
    using job_from_orm[of jid db v] a by blast
  have js: "jobs st skip limit db = Inr vs \<longrightarrow>
      (\<forall>v \<in> set vs. j_next_attempt_at v \<noteq> None \<longrightarrow> j_status v = PENDING)"
    using a by (auto simp: jobs_def split: if_splits)
  have n: "j_next_attempt_at (fst (new_job now nxt msg db)) \<noteq> None \<longrightarrow>
      j_status (fst (new_job now nxt msg db)) = PENDING"
    using a by (simp add: new_job_def split: prod.splits)
  have c1: "fst (cancel_job now jid nxt msg db) = Inr v \<longrightarrow>
      j_next_attempt_at v \<noteq> None \<longrightarrow> j_status v = PENDING"
    using cancel_job_from_orm[of now jid nxt msg db v] a by blast
  have c2: "fst (cancel_job now jid nxt msg db) = Inl (HTTP_409_CONFLICT v) \<longrightarrow>
      j_next_attempt_at v \<noteq> None \<longrightarrow> j_status v = PENDING"
    using cancel_job_from_orm[of now jid nxt msg db v] a by blast
  show ?thesis using a[of r] j js n c1 c2 by simp
qed

lemma example_job_running:
  "job 2 example_store = Inr (Job_from_orm example_running)"
  by (simp add: job_def db_select_job_def example_store_def example_pending_def example_running_def)

theorem next_attempt_at_shown_only_when_pending_witness:
  "job 2 example_store = Inr (Job_from_orm example_running) \<and>
   next_attempt_at example_running = 3000000 \<and>
   j_status (Job_from_orm example_running) = RUNNING \<and>
   j_next_attempt_at (Job_from_orm example_running) = None \<and>
   j_next_attempt_at (Job_from_orm example_pending) = Some 5000000 \<and>
   j_status (Job_from_orm example_pending) = PENDING"
proof -
  have s: "j_status (Job_from_orm example_running) = RUNNING"
    by (simp add: example_running_def)
  have p: "j_next_attempt_at (Job_from_orm example_pending) = Some 5000000"
    by (simp add: Job_from_orm_next example_pending_def)
  have "j_next_attempt_at (Job_from_orm example_running) = None"
    using next_attempt_at_shown_only_when_pending[of example_running 2 example_store
        "Job_from_orm example_running"] example_job_running s
    by auto
  moreover have "j_status (Job_from_orm example_pending) = PENDING"
    using next_attempt_at_shown_only_when_pending[of example_pending] p by auto
  ultimately show ?thesis using example_job_running s p by (simp add: example_running_def)
qed





section \<open>Listing and pagination\<close>

lemma mset_order_by_desc [simp]: "mset (order_by_desc k xs) = mset xs"
  by (simp add: order_by_desc_def)

lemma set_order_by_desc [simp]: "set (order_by_desc k xs) = set xs"
  by (simp add: order_by_desc_def)

lemma length_order_by_desc [simp]: "length (order_by_desc k xs) = length xs"
  by (simp add: order_by_desc_def)











section \<open>The simulator\<close>

lemma fake_target_prior:
  "fake_target d j = Some (ts, tsa, tn, tm) \<Longrightarrow> prior_status ts = status j"
  by (auto simp: fake_target_def prior_status_def Let_def split: if_splits)

lemma advance_job_ok:
  assumes sel: "db_select_job db (job_id j) = Inr old"
    and t: "fake_target d j = Some (ts, tsa, tn, tm)"
    and st: "status old = status j"
  shows "advance_job d j (db, l) =
    (Inr (),
     db\<lparr>app_jobs :=
          map (\<lambda>r. if job_id r = job_id j
                    then (transition_row (sql_now d) ts tn tm r)\<lparr>status_at := tsa\<rparr> else r)
            (app_jobs db),
        app_job_histories := app_job_histories db @ [old_values db old]\<rparr>,
     l)"
proof -
  from sel have f: "filter (\<lambda>x. job_id x = job_id j) (app_jobs db) = [old]"
    by (simp add: select_job_Inr)
  have ok: "status old = prior_status ts" using fake_target_prior[OF t] st by simp
  let ?db1 = "db\<lparr>app_jobs :=
          map (\<lambda>r. if job_id r = job_id j then transition_row (sql_now d) ts tn tm r else r)
            (app_jobs db),
        app_job_histories := app_job_histories db @ [old_values db old]\<rparr>"
  let ?db2 = "db\<lparr>app_jobs :=
          map (\<lambda>r. if job_id r = job_id j
                    then (transition_row (sql_now d) ts tn tm r)\<lparr>status_at := tsa\<rparr> else r)
            (app_jobs db),
        app_job_histories := app_job_histories db @ [old_values db old]\<rparr>"
  have u: "update_job_status' (sql_now d) j ts tn tm db = (Inr (), ?db1)"
    by (rule update_ok[OF sel ok])
  have s2: "set_status_at (job_id j) tsa ?db1 = ?db2"
    by (simp add: set_status_at_def o_def if_distrib cong: if_cong)
  have r: "refresh ?db2 j = Inr ((transition_row (sql_now d) ts tn tm old)\<lparr>status_at := tsa\<rparr>)"
    using filter_single_map_id[OF f, of "\<lambda>r. (transition_row (sql_now d) ts tn tm r)\<lparr>status_at := tsa\<rparr>"]
    by (simp add: refresh_Inr)
  show ?thesis
    by (simp add: advance_job_def t u s2 r Let_def)
qed


lemma fake_target_running:
  "status j = RUNNING \<Longrightarrow>
   fake_target d j =
     Some (if d10 d = 0 then
             (DONE, status_at j + run_time d, None, Some ''Permanent failure'')
           else if d10 d \<in> {1, 2, 3} then
             (PENDING, status_at j + run_time d, Some (status_at j + run_time d + 10000000),
              Some ''Temporary failure'')
           else (DONE, status_at j + run_time d, None, None))"
  by (simp add: fake_target_def Let_def)

text \<open>
  C8. When the simulator concludes a \<open>RUNNING\<close> job, the outcome follows the bucket drawn
  from \<open>0..9\<close>: exactly one bucket (0) gives \<open>DONE\<close> with message "Permanent failure";
  exactly three (1, 2, 3) give \<open>PENDING\<close> with message "Temporary failure" and
  \<open>next_attempt_at\<close> ten seconds after the completion time; the other six give \<open>DONE\<close>
  with no message (the empty string). The completion time is \<open>status_at\<close> plus the drawn
  running time, and becomes the job's \<open>status_at\<close>. The draws themselves (that
  \<open>randrange\<close> is uniform, that \<open>uniform(5, 15)\<close> lies between 5 and 15 seconds) are
  inputs here.
\<close>

theorem running_job_outcome:
  assumes "db_select_job db (job_id j) = Inr j" and "status j = RUNNING"
  shows "fake_target d j =
     Some (if d10 d = 0 then
             (DONE, status_at j + run_time d, None, Some ''Permanent failure'')
           else if d10 d \<in> {1, 2, 3} then
             (PENDING, status_at j + run_time d, Some (status_at j + run_time d + 10000000),
              Some ''Temporary failure'')
           else (DONE, status_at j + run_time d, None, None)) \<and>
   filter (\<lambda>n. fake_target (d\<lparr>d10 := n\<rparr>) j =
                 Some (DONE, status_at j + run_time d, None, Some ''Permanent failure''))
     [0..<10] = [0] \<and>
   filter (\<lambda>n. fake_target (d\<lparr>d10 := n\<rparr>) j =
                 Some (PENDING, status_at j + run_time d,
                       Some (status_at j + run_time d + 10000000), Some ''Temporary failure''))
     [0..<10] = [1, 2, 3] \<and>
   filter (\<lambda>n. fake_target (d\<lparr>d10 := n\<rparr>) j =
                 Some (DONE, status_at j + run_time d, None, None))
     [0..<10] = [4, 5, 6, 7, 8, 9] \<and>
   fst (advance_job d j (db, logged)) = Inr () \<and>
   snd (snd (advance_job d j (db, logged))) = logged \<and>
   db_select_job (fst (snd (advance_job d j (db, logged)))) (job_id j) =
     Inr (if d10 d = 0 then
            j\<lparr>status := DONE, status_at := status_at j + run_time d,
              message := Some ''Permanent failure''\<rparr>
          else if d10 d \<in> {1, 2, 3} then
            j\<lparr>status := PENDING, status_at := status_at j + run_time d,
              message := Some ''Temporary failure'',
              next_attempt_at := status_at j + run_time d + 10000000\<rparr>
          else
            j\<lparr>status := DONE, status_at := status_at j + run_time d, message := Some []\<rparr>)"
proof -
  note ft = fake_target_running[OF assms(2)]
  have u: "[0..<10] = [0, 1, 2, 3, 4, 5, 6, 7, 8, 9::nat]"
    by code_simp
  have c1: "filter (\<lambda>n. fake_target (d\<lparr>d10 := n\<rparr>) j =
                 Some (DONE, status_at j + run_time d, None, Some ''Permanent failure''))
     [0..<10] = [0]"
    unfolding u by (simp add: ft)
  have c2: "filter (\<lambda>n. fake_target (d\<lparr>d10 := n\<rparr>) j =
                 Some (PENDING, status_at j + run_time d,
                       Some (status_at j + run_time d + 10000000), Some ''Temporary failure''))
     [0..<10] = [1, 2, 3]"
    unfolding u by (simp add: ft)
  have c3: "filter (\<lambda>n. fake_target (d\<lparr>d10 := n\<rparr>) j =
                 Some (DONE, status_at j + run_time d, None, None))
     [0..<10] = [4, 5, 6, 7, 8, 9]"
    unfolding u by (simp add: ft)
  from assms(1) have f: "filter (\<lambda>x. job_id x = job_id j) (app_jobs db) = [j]"
    by (simp add: select_job_Inr)
  obtain ts tsa tn tm where t: "fake_target d j = Some (ts, tsa, tn, tm)"
    using ft[of d] by (metis prod_cases4)
  note a = advance_job_ok[OF assms(1) t refl, of logged]
  have sel: "db_select_job (fst (snd (advance_job d j (db, logged)))) (job_id j) =
      Inr ((transition_row (sql_now d) ts tn tm j)\<lparr>status_at := tsa\<rparr>)"
    using filter_single_map_id[OF f, of "\<lambda>r. (transition_row (sql_now d) ts tn tm r)\<lparr>status_at := tsa\<rparr>"]
    by (simp add: a select_job_Inr)
  have row: "(transition_row (sql_now d) ts tn tm j)\<lparr>status_at := tsa\<rparr> =
     (if d10 d = 0 then
            j\<lparr>status := DONE, status_at := status_at j + run_time d,
              message := Some ''Permanent failure''\<rparr>
          else if d10 d \<in> {1, 2, 3} then
            j\<lparr>status := PENDING, status_at := status_at j + run_time d,
              message := Some ''Temporary failure'',
              next_attempt_at := status_at j + run_time d + 10000000\<rparr>
          else
            j\<lparr>status := DONE, status_at := status_at j + run_time d, message := Some []\<rparr>)"
    using t ft[of d]
    by (auto simp: transition_row_def message_or_empty_def split: if_splits)
  show ?thesis
    using c1 c2 c3 sel by (simp add: ft a row)
qed

theorem running_job_outcome_witness:
  "db_select_job example_store (job_id example_running) = Inr example_running \<and>
   status example_running = RUNNING \<and>
   db_select_job (fst (snd (advance_job example_draw example_running (example_store, []))))
     (job_id example_running) =
     Inr \<lparr>job_id = 2, created_at = 0, next_attempt_at = 20000000, status = PENDING,
          status_at = 10000000, message = Some ''Temporary failure''\<rparr>"
proof -
  have h: "status example_running = RUNNING" by (simp add: example_running_def)
  have "db_select_job (fst (snd (advance_job example_draw example_running (example_store, []))))
     (job_id example_running) =
     Inr (example_running\<lparr>status := PENDING, status_at := status_at example_running + run_time example_draw,
              message := Some ''Temporary failure'',
              next_attempt_at := status_at example_running + run_time example_draw + 10000000\<rparr>)"
    using running_job_outcome[OF example_select_running h, of example_draw "[]"]
    by (simp add: example_draw_def)
  moreover have "example_running\<lparr>status := PENDING, status_at := status_at example_running + run_time example_draw,
              message := Some ''Temporary failure'',
              next_attempt_at := status_at example_running + run_time example_draw + 10000000\<rparr> =
      \<lparr>job_id = 2, created_at = 0, next_attempt_at = 20000000, status = PENDING,
          status_at = 10000000, message = Some ''Temporary failure''\<rparr>"
    by (simp add: example_running_def example_draw_def)
  ultimately show ?thesis using example_select_running h by simp
qed

lemma advance_job_conflict:
  assumes sel: "db_select_job db (job_id j) = Inr r"
    and t: "fake_target d j = Some (ts, tsa, tn, tm)"
    and st: "status r \<noteq> prior_status ts"
  shows "advance_job d j (db, l) = (Inr (), db, l @ [UnableToUpdateStatus ts (job_id j)])"
  by (simp add: advance_job_def t update_fail[OF sel st])

lemma advance_jobs_append:
  "advance_jobs draw (xs @ ys) s =
   (case advance_jobs draw xs s of
      (Inl e, s1) \<Rightarrow> (Inl e, s1)
    | (Inr u, s1) \<Rightarrow> advance_jobs draw ys s1)"
  by (induction xs arbitrary: s) (auto split: prod.splits sum.splits)

lemma advance_job_log:
  "advance_job d j (db, l) =
   (case advance_job d j (db, []) of (res, db', l') \<Rightarrow> (res, db', l @ l'))"
  by (auto simp: advance_job_def Let_def split: option.splits prod.splits sum.splits)

lemma advance_jobs_log:
  "advance_jobs draw js (db, l) =
   (case advance_jobs draw js (db, []) of (res, db', l') \<Rightarrow> (res, db', l @ l'))"
proof (induction js arbitrary: db l)
  case Nil
  show ?case by simp
next
  case (Cons j js)
  obtain res db1 l1 where a: "advance_job (draw (job_id j)) j (db, []) = (res, db1, l1)"
    by (cases "advance_job (draw (job_id j)) j (db, [])") auto
  then have b: "advance_job (draw (job_id j)) j (db, l) = (res, db1, l @ l1)"
    using advance_job_log[of "draw (job_id j)" j db l] by simp
  show ?case
  proof (cases res)
    case (Inl e)
    then show ?thesis using a b by simp
  next
    case (Inr u)
    obtain res2 db2 l2 where c: "advance_jobs draw js (db1, []) = (res2, db2, l2)"
      by (cases "advance_jobs draw js (db1, [])") auto
    have "advance_jobs draw js (db1, l1) = (res2, db2, l1 @ l2)"
      using Cons.IH[of db1 l1] c by simp
    moreover have "advance_jobs draw js (db1, l @ l1) = (res2, db2, (l @ l1) @ l2)"
      using Cons.IH[of db1 "l @ l1"] c by simp
    ultimately show ?thesis using a b Inr by simp
  qed
qed

text \<open>
  C9. In a pass of the simulator over the selected jobs, a job whose persisted status is
  no longer the one its target requires makes \<open>_update_job_status\<close> raise
  \<open>BadPriorStatusError\<close>; the loop logs a warning for that job, leaves the store as it was,
  and goes on with the remaining jobs. The pass ends with the same result and the same
  store as the pass without that job.
\<close>

theorem conflict_skips_one_job:
  assumes "advance_jobs draw xs (db, logged) = (Inr (), db1, logged1)"
    and "db_select_job db1 (job_id j) = Inr r"
    and "fake_target (draw (job_id j)) j = Some (ts, tsa, tn, tm)"
    and "status r \<noteq> prior_status ts"
  shows "update_job_status' (sql_now (draw (job_id j))) j ts tn tm db1 =
           (Inl BadPriorStatusError, db1) \<and>
         advance_job (draw (job_id j)) j (db1, logged1) =
           (Inr (), db1, logged1 @ [UnableToUpdateStatus ts (job_id j)]) \<and>
         advance_jobs draw (xs @ j # ys) (db, logged) =
           advance_jobs draw ys (db1, logged1 @ [UnableToUpdateStatus ts (job_id j)]) \<and>
         fst (advance_jobs draw (xs @ j # ys) (db, logged)) =
           fst (advance_jobs draw (xs @ ys) (db, logged)) \<and>
         fst (snd (advance_jobs draw (xs @ j # ys) (db, logged))) =
           fst (snd (advance_jobs draw (xs @ ys) (db, logged)))"
proof -
  note c = advance_job_conflict[OF assms(2,3,4), of logged1]
  have a: "advance_jobs draw (xs @ j # ys) (db, logged) =
           advance_jobs draw ys (db1, logged1 @ [UnableToUpdateStatus ts (job_id j)])"
    by (simp add: advance_jobs_append[of draw xs "j # ys"] assms(1) c)
  have b: "advance_jobs draw (xs @ ys) (db, logged) = advance_jobs draw ys (db1, logged1)"
    by (simp add: advance_jobs_append[of draw xs ys] assms(1))
  obtain res2 db2 l2 where e: "advance_jobs draw ys (db1, []) = (res2, db2, l2)"
    by (cases "advance_jobs draw ys (db1, [])") auto
  have e1: "advance_jobs draw ys (db1, logged1) = (res2, db2, logged1 @ l2)"
    using advance_jobs_log[of draw ys db1 logged1] e by simp
  have e2: "advance_jobs draw ys (db1, logged1 @ [UnableToUpdateStatus ts (job_id j)]) =
      (res2, db2, (logged1 @ [UnableToUpdateStatus ts (job_id j)]) @ l2)"
    using advance_jobs_log[of draw ys db1 "logged1 @ [UnableToUpdateStatus ts (job_id j)]"] e
    by simp
  show ?thesis
    using update_fail[OF assms(2,4)] c a by (simp add: b e1 e2)
qed


theorem conflict_skips_one_job_witness:
  "advance_jobs (\<lambda>jid. example_draw) [] (example_store, []) = (Inr (), example_store, []) \<and>
   db_select_job example_store (job_id example_stale) = Inr example_running \<and>
   fake_target example_draw example_stale = Some (RUNNING, 4000000, None, None) \<and>
   status example_running \<noteq> prior_status RUNNING \<and>
   advance_jobs (\<lambda>jid. example_draw) [example_stale, example_pending] (example_store, []) =
     advance_jobs (\<lambda>jid. example_draw) [example_pending]
       (example_store, [UnableToUpdateStatus RUNNING 2]) \<and>
   fst (advance_jobs (\<lambda>jid. example_draw) [example_stale, example_pending] (example_store, [])) =
     Inr () \<and>
   map status (app_jobs (fst (snd
     (advance_jobs (\<lambda>jid. example_draw) [example_stale, example_pending] (example_store, []))))) =
     [RUNNING, RUNNING]"
proof -
  have h1: "advance_jobs (\<lambda>jid. example_draw) [] (example_store, []) = (Inr (), example_store, [])"
    by simp
  have id: "job_id example_stale = job_id example_running" "job_id example_stale = 2"
    by (simp_all add: example_stale_def example_running_def)
  have h2: "db_select_job example_store (job_id example_stale) = Inr example_running"
    using example_select_running by (simp only: id)
  have h3: "fake_target example_draw example_stale = Some (RUNNING, 4000000, None, None)"
    by (simp add: fake_target_def example_stale_def example_running_def example_draw_def)
  have h4: "status example_running \<noteq> prior_status RUNNING"
    by (simp add: example_running_def prior_status_def)
  have c': "advance_jobs (\<lambda>jid. example_draw) [example_stale, example_pending] (example_store, []) =
     advance_jobs (\<lambda>jid. example_draw) [example_pending]
       (example_store, [UnableToUpdateStatus RUNNING 2])"
    using conflict_skips_one_job[of "\<lambda>jid. example_draw" "[]" example_store "[]" example_store "[]"
        example_stale example_running RUNNING 4000000 None None "[example_pending]", OF h1 h2 h3 h4]
    by (simp add: id(2))
  have t: "fake_target example_draw example_pending = Some (RUNNING, 6000000, None, None)"
    by (simp add: fake_target_def example_pending_def example_draw_def)
  note ok = advance_job_ok[OF example_select_pending t refl, of "[UnableToUpdateStatus RUNNING 2]"]
  have m: "map status (app_jobs (fst (snd (advance_job example_draw example_pending
        (example_store, [UnableToUpdateStatus RUNNING 2]))))) = [RUNNING, RUNNING]"
    unfolding ok
    by (simp add: example_store_def example_pending_def example_running_def transition_row_def)
  have f: "fst (advance_job example_draw example_pending
        (example_store, [UnableToUpdateStatus RUNNING 2])) = Inr ()"
    unfolding ok by simp
  have r: "advance_jobs (\<lambda>jid. example_draw) [example_pending]
       (example_store, [UnableToUpdateStatus RUNNING 2]) =
     advance_job example_draw example_pending (example_store, [UnableToUpdateStatus RUNNING 2])"
    using f by (cases "advance_job example_draw example_pending
        (example_store, [UnableToUpdateStatus RUNNING 2])") (auto split: sum.splits)
  show ?thesis
    using h1 h2 h3 h4 by (simp only: c' r m f simp_thms)
qed

section \<open>The simulator keeps the job ids\<close>






section \<open>The simulator's loop ends\<close>









section \<open>The history handler\<close>





end
